theory Spec2Isabelle
  imports Main "HOL-Library.Word"
begin

unbundle bit_operations_syntax

section \<open>tyc monitor: command-line options (src/tyc/monitor.c, monitor)\<close>

text \<open>
  Error returns of the C code are negative integers produced by \<open>ty_error(code, ...)\<close>.
  The model keeps the code by name. The codes named in monitor.c are listed; every other
  negative value a library call may return is \<open>TY_ERROR_UNLISTED\<close>.
\<close>

datatype ty_err =
    TY_ERROR_PARAM
  | TY_ERROR_IO
  | TY_ERROR_SYSTEM
  | TY_ERROR_PARSE
  | TY_ERROR_UNLISTED int

text \<open>
  The flag constants come from headers of libty that are not part of the sources at hand
  (\<open>TYD_SERIAL_*\<close>, \<open>TY_TERMINAL_*\<close>). They are parameters of the model: every theorem
  below holds for all values of them.
\<close>

record ty_consts =
  TYD_SERIAL_CSIZE_MASK :: "32 word"
  TYD_SERIAL_5BITS_CSIZE :: "32 word"
  TYD_SERIAL_6BITS_CSIZE :: "32 word"
  TYD_SERIAL_7BITS_CSIZE :: "32 word"
  TYD_SERIAL_FLOW_MASK :: "32 word"
  TYD_SERIAL_XONXOFF_FLOW :: "32 word"
  TYD_SERIAL_RTSCTS_FLOW :: "32 word"
  TYD_SERIAL_PARITY_MASK :: "32 word"
  TYD_SERIAL_ODD_PARITY :: "32 word"
  TYD_SERIAL_EVEN_PARITY :: "32 word"
  TYD_SERIAL_NOHUP_CLOSE :: "32 word"
  TY_TERMINAL_SILENT :: "32 word"
  TY_TERMINAL_RAW :: "32 word"

text \<open>The \<open>enum { DIRECTION_INPUT = 1, DIRECTION_OUTPUT = 2 }\<close> and the two macros.\<close>

definition DIRECTION_INPUT :: "32 word" where
  "DIRECTION_INPUT = 1"

definition DIRECTION_OUTPUT :: "32 word" where
  "DIRECTION_OUTPUT = 2"

definition BUFFER_SIZE :: nat where
  "BUFFER_SIZE = 1024"

definition ERROR_IO_TIMEOUT :: int where
  "ERROR_IO_TIMEOUT = 5000"

text \<open>The file-scope variables of monitor.c, with their initial values.\<close>

record globals =
  terminal_flags :: "32 word"
  device_rate :: "32 word"
  device_flags :: "32 word"
  directions :: "32 word"
  reconnect :: bool
  timeout_eof :: int

definition initial_globals :: globals where
  "initial_globals =
     \<lparr> terminal_flags = 0, device_rate = 115200, device_flags = 0,
       directions = DIRECTION_INPUT OR DIRECTION_OUTPUT,
       reconnect = False, timeout_eof = 200 \<rparr>"

text \<open>
  The value \<open>c\<close> returned by \<open>getopt_long\<close>, for the options whose handling uses only
  \<open>optarg\<close> and the flags. The cases \<open>'b'\<close>, \<open>--timeout-eof\<close> and \<open>default\<close> convert
  numbers with \<open>strtoul\<close>/\<open>strtol\<close> or hand over to \<open>parse_main_option\<close>; they are not
  modelled.
\<close>

datatype opt =
    Opt_s | Opt_r | Opt_D | Opt_d | Opt_f | MONITOR_OPTION_NORESET | Opt_p | Opt_R

text \<open>
  \<open>case 'f'\<close>, lines 401-411. \<open>strcmp(optarg, s) == 0\<close> is equality of strings. The third
  test is written as in the source: \<open>strcmp(optarg, "n") != 0 && strcmp(optarg, "none") == 0\<close>.
\<close>

definition case_f :: "ty_consts \<Rightarrow> string \<Rightarrow> globals \<Rightarrow> ty_err + globals" where
  "case_f K optarg g =
     (let g1 = g\<lparr>device_flags := device_flags g AND NOT (TYD_SERIAL_FLOW_MASK K)\<rparr> in
      if optarg = ''x'' \<or> optarg = ''xonxoff'' then
        Inr (g1\<lparr>device_flags := device_flags g1 OR TYD_SERIAL_XONXOFF_FLOW K\<rparr>)
      else if optarg = ''h'' \<or> optarg = ''rtscts'' then
        Inr (g1\<lparr>device_flags := device_flags g1 OR TYD_SERIAL_RTSCTS_FLOW K\<rparr>)
      else if optarg \<noteq> ''n'' \<and> optarg = ''none'' then
        Inl TY_ERROR_PARAM
      else Inr g1)"

text \<open>
  The statements of \<open>case 'd'\<close> proper, lines 390-400: the character size. The result is
  the error of the \<open>return\<close>, or the variables at the closing brace of the \<open>if\<close> chain.
\<close>

definition databits :: "ty_consts \<Rightarrow> string \<Rightarrow> globals \<Rightarrow> ty_err + globals" where
  "databits K optarg g =
     (let g1 = g\<lparr>device_flags := device_flags g AND NOT (TYD_SERIAL_CSIZE_MASK K)\<rparr> in
      if optarg = ''5'' then
        Inr (g1\<lparr>device_flags := device_flags g1 OR TYD_SERIAL_5BITS_CSIZE K\<rparr>)
      else if optarg = ''6'' then
        Inr (g1\<lparr>device_flags := device_flags g1 OR TYD_SERIAL_6BITS_CSIZE K\<rparr>)
      else if optarg = ''7'' then
        Inr (g1\<lparr>device_flags := device_flags g1 OR TYD_SERIAL_7BITS_CSIZE K\<rparr>)
      else if optarg \<noteq> ''8'' then
        Inl TY_ERROR_PARAM
      else Inr g1)"

text \<open>
  \<open>case 'd'\<close> as the switch executes it: no \<open>break\<close> stands between line 400 and
  \<open>case 'f':\<close>, so control continues with the statements of \<open>case 'f'\<close>.
\<close>

definition case_d :: "ty_consts \<Rightarrow> string \<Rightarrow> globals \<Rightarrow> ty_err + globals" where
  "case_d K optarg g =
     (case databits K optarg g of
        Inl e \<Rightarrow> Inl e
      | Inr g1 \<Rightarrow> case_f K optarg g1)"

text \<open>\<open>case 'p'\<close>, lines 415-425.\<close>

definition case_p :: "ty_consts \<Rightarrow> string \<Rightarrow> globals \<Rightarrow> ty_err + globals" where
  "case_p K optarg g =
     (let g1 = g\<lparr>device_flags := device_flags g AND NOT (TYD_SERIAL_PARITY_MASK K)\<rparr> in
      if optarg = ''o'' \<or> optarg = ''odd'' then
        Inr (g1\<lparr>device_flags := device_flags g1 OR TYD_SERIAL_ODD_PARITY K\<rparr>)
      else if optarg = ''e'' \<or> optarg = ''even'' then
        Inr (g1\<lparr>device_flags := device_flags g1 OR TYD_SERIAL_EVEN_PARITY K\<rparr>)
      else if optarg \<noteq> ''n'' \<and> optarg \<noteq> ''none'' then
        Inl TY_ERROR_PARAM
      else Inr g1)"

text \<open>\<open>case 'D'\<close>, lines 372-382.\<close>

definition case_D :: "string \<Rightarrow> globals \<Rightarrow> ty_err + globals" where
  "case_D optarg g =
     (if optarg = ''input'' then Inr (g\<lparr>directions := DIRECTION_INPUT\<rparr>)
      else if optarg = ''output'' then Inr (g\<lparr>directions := DIRECTION_OUTPUT\<rparr>)
      else if optarg = ''both'' then
        Inr (g\<lparr>directions := DIRECTION_INPUT OR DIRECTION_OUTPUT\<rparr>)
      else Inl TY_ERROR_PARAM)"

text \<open>The body of the \<open>switch (c)\<close> for one option.\<close>

fun monitor_option :: "ty_consts \<Rightarrow> opt \<Rightarrow> string \<Rightarrow> globals \<Rightarrow> ty_err + globals" where
  "monitor_option K Opt_s optarg g =
     Inr (g\<lparr>terminal_flags := terminal_flags g OR TY_TERMINAL_SILENT K\<rparr>)"
| "monitor_option K Opt_r optarg g =
     Inr (g\<lparr>terminal_flags := terminal_flags g OR TY_TERMINAL_RAW K\<rparr>)"
| "monitor_option K Opt_D optarg g = case_D optarg g"
| "monitor_option K Opt_d optarg g = case_d K optarg g"
| "monitor_option K Opt_f optarg g = case_f K optarg g"
| "monitor_option K MONITOR_OPTION_NORESET optarg g =
     Inr (g\<lparr>device_flags := device_flags g OR TYD_SERIAL_NOHUP_CLOSE K\<rparr>)"
| "monitor_option K Opt_p optarg g = case_p K optarg g"
| "monitor_option K Opt_R optarg g = Inr (g\<lparr>reconnect := True\<rparr>)"

text \<open>
  The \<open>while ((c = getopt_long(...)) != -1)\<close> loop over the options of the command line,
  each with its \<open>optarg\<close>: the first error is returned.
\<close>

fun monitor_options :: "ty_consts \<Rightarrow> (opt \<times> string) list \<Rightarrow> globals \<Rightarrow> ty_err + globals" where
  "monitor_options K [] g = Inr g"
| "monitor_options K ((c, optarg) # rest) g =
     (case monitor_option K c optarg g of
        Inl e \<Rightarrow> Inl e
      | Inr g1 \<Rightarrow> monitor_options K rest g1)"

section \<open>tyc monitor: the session loop (src/tyc/monitor.c, loop)\<close>

text \<open>
  The loop is modelled for the POSIX build (the branches outside \<open>#ifdef _WIN32\<close>).

  A descriptor set is the ordered collection of its entries. The loop only looks at the
  tags, so an entry is its tag.
\<close>

type_synonym ty_descriptor_set = "nat list"

text \<open>
  Modelled from the spec: \<open>ty_descriptor_set_remove\<close>, declared in libty and absent from
  the sources. "Supports add, remove-by-tag, clear": every entry with the tag goes, the
  others keep their order.
\<close>

definition ty_descriptor_set_remove :: "ty_descriptor_set \<Rightarrow> nat \<Rightarrow> ty_descriptor_set" where
  "ty_descriptor_set_remove dset tag = filter (\<lambda>t. t \<noteq> tag) dset"

text \<open>
  \<open>fill_descriptor_set\<close>, lines 203-222. Modelled from the spec:
  \<open>tyb_monitor_get_descriptors\<close> and \<open>tyb_board_get_descriptors\<close> are absent from the
  sources; each merges the descriptor of the monitor, or of the board's serial interface,
  into the set under the tag it is given.
\<close>

definition fill_descriptor_set :: "globals \<Rightarrow> ty_descriptor_set" where
  "fill_descriptor_set g =
     [1] @
     (if directions g AND DIRECTION_INPUT \<noteq> 0 then [2] else []) @
     (if directions g AND DIRECTION_OUTPUT \<noteq> 0 then [3] else [])"

text \<open>
  What the world outside the loop answers to the calls the loop makes while it handles one
  wake-up. A result \<open>r < 0\<close> of a libty call is \<open>Inl\<close> of its error code, \<open>r \<ge> 0\<close> is
  \<open>Inr r\<close>. \<open>write\<close> and \<open>read\<close> on the standard streams fail with \<open>None\<close>
  (\<open>r < 0\<close>; the loop turns either \<open>errno\<close> into \<open>TY_ERROR_IO\<close>).
\<close>

record answers =
  serial_set_attributes_r :: "ty_err + nat"
  monitor_refresh_r :: "ty_err + nat"
  has_capability_serial :: bool
  wait_for_r :: "ty_err + nat"
  serial_read_r :: "ty_err + nat"
  write_r :: "nat option"
  read_r :: "nat option"
  serial_write_r :: "ty_err + nat"

text \<open>
  What ends a wait in \<open>ty_poll\<close>: a failure of the call, nothing becoming ready
  (\<open>Quiet\<close>), or the source registered under a tag becoming ready.
\<close>

datatype wakeup = PollFails ty_err | Quiet | Ready nat

type_synonym event = "wakeup \<times> answers"

text \<open>
  Modelled from the spec: \<open>ty_poll\<close>, absent from the sources.
  "\<open>poll(set, timeout_ms) -> Ready(tag) | Timeout | Error\<close>. Blocks the calling thread.
  \<open>timeout_ms = -1\<close> waits indefinitely". The C function returns the tag, 0 for Timeout and a
  negative code for Error. \<open>None\<close> says that the call does not return on this wake-up: the
  source is not in the set, or nothing is ready and no timeout is armed.
\<close>

definition ty_poll :: "ty_descriptor_set \<Rightarrow> int \<Rightarrow> wakeup \<Rightarrow> (ty_err + nat) option" where
  "ty_poll dset timeout w =
     (case w of
        PollFails e \<Rightarrow> Some (Inl e)
      | Quiet \<Rightarrow> if 0 \<le> timeout then Some (Inr 0) else None
      | Ready tag \<Rightarrow> if tag \<in> set dset then Some (Inr tag) else None)"

datatype capability = TYB_BOARD_CAPABILITY_SERIAL

text \<open>
  The calls the loop makes, with the arguments the claims are about, in order. A
  \<open>printf\<close> is recorded with its text up to the newline that ends it.
\<close>

datatype action =
    Call_serial_set_attributes "32 word" "32 word"
  | Call_printf string
  | Call_monitor_refresh
  | Call_board_wait_for capability bool int
  | Call_serial_read nat
  | Call_write nat
  | Call_read nat
  | Call_serial_write nat

text \<open>The local variables \<open>set\<close> and \<open>timeout\<close> of \<open>loop\<close>.\<close>

record loop_state =
  dset :: ty_descriptor_set
  timeout :: int

text \<open>How a case of the \<open>switch\<close> leaves: \<open>break\<close>, \<open>goto restart\<close> or \<open>return\<close>.\<close>

datatype control = Break loop_state | Goto_restart | Return "ty_err + nat"

text \<open>\<open>case 1\<close>, lines 253-270.\<close>

definition case_1 :: "globals \<Rightarrow> answers \<Rightarrow> loop_state \<Rightarrow> action list \<times> control" where
  "case_1 g a s =
     (case monitor_refresh_r a of
        Inl e \<Rightarrow> ([Call_monitor_refresh], Return (Inl e))
      | Inr _ \<Rightarrow>
          if \<not> has_capability_serial a then
            if \<not> reconnect g then ([Call_monitor_refresh], Return (Inr 0))
            else
              (case wait_for_r a of
                 Inl e \<Rightarrow>
                   ([Call_monitor_refresh, Call_printf ''Waiting for device...'',
                     Call_board_wait_for TYB_BOARD_CAPABILITY_SERIAL False (- 1)],
                    Return (Inl e))
               | Inr _ \<Rightarrow>
                   ([Call_monitor_refresh, Call_printf ''Waiting for device...'',
                     Call_board_wait_for TYB_BOARD_CAPABILITY_SERIAL False (- 1)],
                    Goto_restart))
          else ([Call_monitor_refresh], Break s))"

text \<open>\<open>case 2\<close>, lines 272-296.\<close>

definition case_2 :: "globals \<Rightarrow> answers \<Rightarrow> loop_state \<Rightarrow> action list \<times> control" where
  "case_2 g a s =
     (case serial_read_r a of
        Inl e \<Rightarrow>
          if e = TY_ERROR_IO \<and> reconnect g then
            ([Call_serial_read BUFFER_SIZE],
             Break (s\<lparr>timeout := ERROR_IO_TIMEOUT,
                      dset := ty_descriptor_set_remove (ty_descriptor_set_remove (dset s) 2) 3\<rparr>))
          else ([Call_serial_read BUFFER_SIZE], Return (Inl e))
      | Inr n \<Rightarrow>
          (case write_r a of
             None \<Rightarrow> ([Call_serial_read BUFFER_SIZE, Call_write n], Return (Inl TY_ERROR_IO))
           | Some _ \<Rightarrow> ([Call_serial_read BUFFER_SIZE, Call_write n], Break s)))"

text \<open>\<open>case 3\<close>, lines 298-351.\<close>

definition case_3 :: "globals \<Rightarrow> answers \<Rightarrow> loop_state \<Rightarrow> action list \<times> control" where
  "case_3 g a s =
     (case read_r a of
        None \<Rightarrow> ([Call_read BUFFER_SIZE], Return (Inl TY_ERROR_IO))
      | Some n \<Rightarrow>
          if n = 0 then
            (if 0 \<le> timeout_eof g then
               ([Call_read BUFFER_SIZE],
                Break (s\<lparr>timeout := timeout_eof g,
                         dset := ty_descriptor_set_remove (ty_descriptor_set_remove (dset s) 1) 3\<rparr>))
             else ([Call_read BUFFER_SIZE], Break s))
          else
            (case serial_write_r a of
               Inl e \<Rightarrow>
                 if e = TY_ERROR_IO \<and> reconnect g then
                   ([Call_read BUFFER_SIZE, Call_serial_write n],
                    Break (s\<lparr>timeout := ERROR_IO_TIMEOUT,
                             dset := ty_descriptor_set_remove (ty_descriptor_set_remove (dset s) 2) 3\<rparr>))
                 else ([Call_read BUFFER_SIZE, Call_serial_write n], Return (Inl e))
             | Inr _ \<Rightarrow> ([Call_read BUFFER_SIZE, Call_serial_write n], Break s)))"

text \<open>The \<open>switch (r)\<close> on the non-negative result of \<open>ty_poll\<close>, lines 249-352.\<close>

definition switch_r :: "globals \<Rightarrow> answers \<Rightarrow> nat \<Rightarrow> loop_state \<Rightarrow> action list \<times> control" where
  "switch_r g a r s =
     (if r = 0 then ([], Return (Inr 0))
      else if r = 1 then case_1 g a s
      else if r = 2 then case_2 g a s
      else if r = 3 then case_3 g a s
      else ([], Break s))"

text \<open>
  The statements at the label \<open>restart\<close>, lines 231-239: the error of the \<open>return\<close>, or the
  variables on entry to the \<open>while\<close>.
\<close>

definition restart :: "globals \<Rightarrow> answers \<Rightarrow> action list \<times> (ty_err + loop_state)" where
  "restart g a =
     (case serial_set_attributes_r a of
        Inl e \<Rightarrow> ([Call_serial_set_attributes (device_rate g) (device_flags g)], Inl e)
      | Inr _ \<Rightarrow>
          ([Call_serial_set_attributes (device_rate g) (device_flags g),
            Call_printf ''Connection ready''],
           Inr \<lparr>dset = fill_descriptor_set g, timeout = - 1\<rparr>))"

text \<open>
  A run of the loop on finitely many wake-ups ends with the value \<open>loop\<close> returned, or
  inside \<open>ty_poll\<close> with the variables as they are then.
\<close>

datatype outcome = Returned "ty_err + nat" | In_poll loop_state

text \<open>The \<open>while (true)\<close>, lines 241-353, on the wake-ups still to come.\<close>

fun while_true :: "globals \<Rightarrow> loop_state \<Rightarrow> event list \<Rightarrow> action list \<times> outcome" where
  "while_true g s [] =
     (if dset s = [] then ([], Returned (Inr 0)) else ([], In_poll s))"
| "while_true g s ((w, a) # es) =
     (if dset s = [] then ([], Returned (Inr 0))
      else
        (case ty_poll (dset s) (timeout s) w of
           None \<Rightarrow> while_true g s es
         | Some (Inl e) \<Rightarrow> ([], Returned (Inl e))
         | Some (Inr r) \<Rightarrow>
             (case switch_r g a r s of
                (acts, Return v) \<Rightarrow> (acts, Returned v)
              | (acts, Break s1) \<Rightarrow>
                  (case while_true g s1 es of (acts1, out) \<Rightarrow> (acts @ acts1, out))
              | (acts, Goto_restart) \<Rightarrow>
                  (case restart g a of
                     (acts0, Inl e) \<Rightarrow> (acts @ acts0, Returned (Inl e))
                   | (acts0, Inr s1) \<Rightarrow>
                       (case while_true g s1 es of
                          (acts1, out) \<Rightarrow> (acts @ acts0 @ acts1, out))))))"

text \<open>
  \<open>loop\<close>: the first pass through \<open>restart\<close> with the answers \<open>a0\<close>, then the \<open>while\<close>.
\<close>

definition loop :: "globals \<Rightarrow> answers \<Rightarrow> event list \<Rightarrow> action list \<times> outcome" where
  "loop g a0 es =
     (case restart g a0 of
        (acts0, Inl e) \<Rightarrow> (acts0, Returned (Inl e))
      | (acts0, Inr s) \<Rightarrow>
          (case while_true g s es of (acts, out) \<Rightarrow> (acts0 @ acts, out)))"

text \<open>Answers where every call succeeds and the board has its serial capability.\<close>

definition all_fine :: answers where
  "all_fine =
     \<lparr> serial_set_attributes_r = Inr 0, monitor_refresh_r = Inr 0,
       has_capability_serial = True, wait_for_r = Inr 0, serial_read_r = Inr 1,
       write_r = Some 1, read_r = Some 1, serial_write_r = Inr 1 \<rparr>"







section \<open>libtyqt: the board collection (src/src/libtyqt/monitor.cc)\<close>

text \<open>
  A \<open>ty_board *\<close> is an address. The \<open>Board\<close> object that \<open>handleAddedEvent\<close> makes for
  it is told apart from the others by that pointer only (\<open>ptr->board() == board\<close>), so an
  element of \<open>boards_\<close> is the pointer its \<open>Board\<close> wraps.
\<close>

type_synonym ty_board = nat

datatype ty_monitor_event =
    TY_MONITOR_EVENT_ADDED
  | TY_MONITOR_EVENT_CHANGED
  | TY_MONITOR_EVENT_DISAPPEARED
  | TY_MONITOR_EVENT_DROPPED

text \<open>
  What the object does to the outside, in order: the signals of the list model (with the
  \<open>first\<close> and \<open>last\<close> rows they are given) and the calls into the libty backend.
\<close>

datatype emitted =
    BeginInsertRows nat nat
  | EndInsertRows
  | BeginRemoveRows nat nat
  | EndRemoveRows
  | DataChanged nat
  | BoardAdded ty_board
  | Call_ty_monitor_new
  | Call_ty_monitor_register_callback
  | Call_ty_monitor_free
  | Call_ty_monitor_start
  | Call_ty_monitor_stop

text \<open>
  The rows a \<open>begin...Rows(parent, first, last)\<close> signal announces: \<open>first\<close> to \<open>last\<close>,
  both included. \<open>handleAddedEvent\<close> and \<open>removeBoardItem\<close> rely on it: each passes
  \<open>first = last\<close> for its single row.
\<close>

definition rows_announced :: "nat \<Rightarrow> nat \<Rightarrow> nat list" where
  "rows_announced first_row last_row = [first_row ..< Suc last_row]"

text \<open>
  The members of \<open>Monitor\<close> that start, stop and the event handlers read or write.
  The members \<open>started_\<close>, \<open>monitor_\<close> and \<open>boards_\<close> are written \<open>m_started\<close>,
  \<open>m_monitor\<close> and \<open>m_boards\<close>: a name cannot end with an underscore here.
\<close>

record Monitor =
  m_started :: bool
  m_monitor :: "nat option"
  m_boards :: "ty_board list"
  serial_thread_running :: bool
  monitor_notifier_enabled :: bool
  emitted_log :: "emitted list"

text \<open>The results of the backend calls made by one \<open>start()\<close>.\<close>

record backend =
  ty_monitor_new_r :: "ty_err + nat"
  ty_monitor_register_callback_r :: "ty_err + nat"
  ty_monitor_start_r :: "ty_err + nat"

text \<open>
  The block \<open>if (!monitor_) { ... }\<close> of \<open>start\<close>, lines 100-118: \<open>Inl\<close> is the
  \<open>return false\<close>. The \<open>unique_ptr\<close> frees the new monitor when registration fails.
\<close>

definition start_subscribe :: "backend \<Rightarrow> Monitor \<Rightarrow> Monitor + Monitor" where
  "start_subscribe b m =
     (if m_monitor m = None then
        (case ty_monitor_new_r b of
           Inl e \<Rightarrow> Inl (m\<lparr>emitted_log := emitted_log m @ [Call_ty_monitor_new]\<rparr>)
         | Inr h \<Rightarrow>
             (case ty_monitor_register_callback_r b of
                Inl e \<Rightarrow>
                  Inl (m\<lparr>emitted_log := emitted_log m @
                          [Call_ty_monitor_new, Call_ty_monitor_register_callback,
                           Call_ty_monitor_free]\<rparr>)
              | Inr _ \<Rightarrow>
                  Inr (m\<lparr>m_monitor := Some h,
                         emitted_log := emitted_log m @
                          [Call_ty_monitor_new, Call_ty_monitor_register_callback]\<rparr>)))
      else Inr m)"

text \<open>\<open>Monitor::start\<close>, lines 93-129: the value returned and the object afterwards.\<close>

definition start :: "backend \<Rightarrow> Monitor \<Rightarrow> bool \<times> Monitor" where
  "start b m =
     (if m_started m then (True, m)
      else
        (case start_subscribe b m of
           Inl m1 \<Rightarrow> (False, m1)
         | Inr m1 \<Rightarrow>
             (let m2 = m1\<lparr>serial_thread_running := True,
                         emitted_log := emitted_log m1 @ [Call_ty_monitor_start]\<rparr> in
              case ty_monitor_start_r b of
                Inl e \<Rightarrow> (False, m2)
              | Inr _ \<Rightarrow> (True, m2\<lparr>monitor_notifier_enabled := True, m_started := True\<rparr>))))"

text \<open>
  \<open>Monitor::stop\<close>, lines 131-149. The removal is announced with
  \<open>beginRemoveRows(QModelIndex(), 0, boards_.size())\<close>.
\<close>

definition stop :: "Monitor \<Rightarrow> Monitor" where
  "stop m =
     (if \<not> m_started m then m
      else
        (let m1 = m\<lparr>serial_thread_running := False\<rparr>;
             m2 = (if m_boards m1 \<noteq> [] then
                     m1\<lparr>m_boards := [],
                        emitted_log := emitted_log m1 @
                          [BeginRemoveRows 0 (length (m_boards m1)), EndRemoveRows]\<rparr>
                   else m1)
         in m2\<lparr>monitor_notifier_enabled := False,
               emitted_log := emitted_log m2 @ [Call_ty_monitor_stop],
               m_started := False\<rparr>))"

text \<open>
  \<open>Monitor::board\<close>, lines 156-162. The index is an \<open>unsigned int\<close>; the comparison with
  \<open>boards_.size()\<close> is made in \<open>size_t\<close>, where the index keeps its value. \<open>nullptr\<close> is
  \<open>None\<close>.
\<close>

definition board :: "Monitor \<Rightarrow> 32 word \<Rightarrow> ty_board option" where
  "board m i =
     (if length (m_boards m) \<le> unat i then None
      else Some (m_boards m ! unat i))"

text \<open>\<open>Monitor::boardCount\<close>, lines 164-167: the size, converted to \<open>unsigned int\<close>.\<close>

definition boardCount :: "Monitor \<Rightarrow> 32 word" where
  "boardCount m = of_nat (length (m_boards m))"

text \<open>
  \<open>Monitor::findBoardIterator\<close>, lines 310-314. An iterator is the distance from
  \<open>boards_.begin()\<close>; \<open>boards_.end()\<close> is \<open>length (m_boards m)\<close>.
\<close>

definition findBoardIterator :: "Monitor \<Rightarrow> ty_board \<Rightarrow> nat" where
  "findBoardIterator m b = length (takeWhile (\<lambda>p. p \<noteq> b) (m_boards m))"

text \<open>
  \<open>Monitor::handleAddedEvent\<close>, lines 316-355. The settings, the thread pool and the
  signal connections of the new \<open>Board\<close> do not touch \<open>boards_\<close>.
\<close>

definition handleAddedEvent :: "Monitor \<Rightarrow> ty_board \<Rightarrow> Monitor" where
  "handleAddedEvent m b =
     m\<lparr>m_boards := m_boards m @ [b],
       emitted_log := emitted_log m @
         [BeginInsertRows (length (m_boards m)) (length (m_boards m)), EndInsertRows,
          BoardAdded b]\<rparr>"

text \<open>
  \<open>Monitor::removeBoardItem\<close>, lines 373-378. \<open>erase\<close> of \<open>end()\<close> or beyond is undefined
  in C++: \<open>None\<close>.
\<close>

definition removeBoardItem :: "Monitor \<Rightarrow> nat \<Rightarrow> Monitor option" where
  "removeBoardItem m it =
     (if it < length (m_boards m) then
        Some (m\<lparr>m_boards := take it (m_boards m) @ drop (Suc it) (m_boards m),
                emitted_log := emitted_log m @ [BeginRemoveRows it it, EndRemoveRows]\<rparr>)
      else None)"

text \<open>\<open>Monitor::refreshBoardItem\<close>, lines 367-371.\<close>

definition refreshBoardItem :: "Monitor \<Rightarrow> nat \<Rightarrow> Monitor" where
  "refreshBoardItem m it = m\<lparr>emitted_log := emitted_log m @ [DataChanged it]\<rparr>"

text \<open>
  Modelled from the spec: \<open>Board::refreshBoard\<close>, defined in tyqt/board.cc, which is absent
  from the sources. "DROPPED: ... a terminal dropped notification fires, and the Monitor
  removes it from the collection"; on the other transitions "a changed notification
  fires". The \<open>Board\<close> emits \<open>dropped\<close>, or one of its change signals, and the lambdas
  connected in \<open>handleAddedEvent\<close> (lines 334-348) turn the signal into
  \<open>removeBoardItem(findBoardIterator(board))\<close> or
  \<open>refreshBoardItem(findBoardIterator(board))\<close>.
\<close>

definition refreshBoard :: "Monitor \<Rightarrow> ty_board \<Rightarrow> ty_monitor_event \<Rightarrow> Monitor option" where
  "refreshBoard m b ev =
     (if ev = TY_MONITOR_EVENT_DROPPED then removeBoardItem m (findBoardIterator m b)
      else Some (refreshBoardItem m (findBoardIterator m b)))"

text \<open>\<open>Monitor::handleChangedEvent\<close>, lines 357-365.\<close>

definition handleChangedEvent :: "Monitor \<Rightarrow> ty_board \<Rightarrow> ty_monitor_event \<Rightarrow> Monitor option" where
  "handleChangedEvent m b ev =
     (if findBoardIterator m b = length (m_boards m) then Some m
      else refreshBoard m b ev)"

text \<open>\<open>Monitor::handleEvent\<close>, lines 291-308.\<close>

fun handleEvent :: "Monitor \<Rightarrow> ty_board \<Rightarrow> ty_monitor_event \<Rightarrow> Monitor option" where
  "handleEvent m b TY_MONITOR_EVENT_ADDED = Some (handleAddedEvent m b)"
| "handleEvent m b ev = handleChangedEvent m b ev"

text \<open>The events of the backend, handled one after the other.\<close>

fun handleEvents :: "Monitor \<Rightarrow> (ty_board \<times> ty_monitor_event) list \<Rightarrow> Monitor option" where
  "handleEvents m [] = Some m"
| "handleEvents m ((b, ev) # rest) =
     (case handleEvent m b ev of
        None \<Rightarrow> None
      | Some m1 \<Rightarrow> handleEvents m1 rest)"

text \<open>The object after its constructor: not started, no backend monitor, no board.\<close>

definition new_Monitor :: Monitor where
  "new_Monitor =
     \<lparr> m_started = False, m_monitor = None, m_boards = [], serial_thread_running = False,
       monitor_notifier_enabled = False, emitted_log = [] \<rparr>"

section \<open>Concrete inputs\<close>

text \<open>
  One assignment of the libty flag constants, with disjoint masks, for runs on concrete
  inputs.
\<close>

definition example_consts :: ty_consts where
  "example_consts =
     \<lparr> TYD_SERIAL_CSIZE_MASK = 3, TYD_SERIAL_5BITS_CSIZE = 3, TYD_SERIAL_6BITS_CSIZE = 2,
       TYD_SERIAL_7BITS_CSIZE = 1, TYD_SERIAL_FLOW_MASK = 96, TYD_SERIAL_XONXOFF_FLOW = 32,
       TYD_SERIAL_RTSCTS_FLOW = 64, TYD_SERIAL_PARITY_MASK = 12, TYD_SERIAL_ODD_PARITY = 4,
       TYD_SERIAL_EVEN_PARITY = 8, TYD_SERIAL_NOHUP_CLOSE = 128, TY_TERMINAL_SILENT = 1,
       TY_TERMINAL_RAW = 2 \<rparr>"

text \<open>A backend on which every call of \<open>start\<close> succeeds.\<close>

definition backend_fine :: backend where
  "backend_fine =
     \<lparr> ty_monitor_new_r = Inr 1, ty_monitor_register_callback_r = Inr 0,
       ty_monitor_start_r = Inr 0 \<rparr>"

text \<open>The variables of \<open>loop\<close> on entry to the \<open>while\<close> with both directions open.\<close>

definition entry_state :: loop_state where
  "entry_state = \<lparr>dset = [1, 2, 3], timeout = - 1\<rparr>"

text \<open>
  Wake-ups of the serial descriptor on which the device delivers \<open>n\<close> bytes, for each
  \<open>n\<close> of a list, and the write to the output succeeds; and the calls these make.
\<close>

definition device_reads :: "nat list \<Rightarrow> event list" where
  "device_reads ns = map (\<lambda>n. (Ready 2, all_fine\<lparr>serial_read_r := Inr n\<rparr>)) ns"

definition device_read_calls :: "nat list \<Rightarrow> action list" where
  "device_read_calls ns = concat (map (\<lambda>n. [Call_serial_read BUFFER_SIZE, Call_write n]) ns)"


text \<open>
  The calls that \<open>loop\<close> makes only in \<open>case 1\<close> and on the way through \<open>restart\<close> that
  follows it: the refresh of the monitor, the wait for the capability, and the serial
  attributes.
\<close>

fun on_refresh_path :: "action \<Rightarrow> bool" where
  "on_refresh_path Call_monitor_refresh = True"
| "on_refresh_path (Call_board_wait_for c p t) = True"
| "on_refresh_path (Call_serial_set_attributes r f) = True"
| "on_refresh_path x = False"

text \<open>
  The position of a board in the collection a sequence of events leads to, when the board
  is in it.
\<close>

definition position :: "ty_board \<Rightarrow> Monitor option \<Rightarrow> nat option" where
  "position b r =
     (case r of
        None \<Rightarrow> None
      | Some m \<Rightarrow> if b \<in> set (m_boards m) then Some (findBoardIterator m b) else None)"

section \<open>Properties of the option parsing\<close>

lemma case_f_error_iff: "(\<exists>e. case_f K optarg g = Inl e) \<longleftrightarrow> optarg = ''none''"
  by (auto simp: case_f_def Let_def)

lemma case_p_none_accepted:
  "case_p K ''none'' g = Inr (g\<lparr>device_flags := device_flags g AND NOT (TYD_SERIAL_PARITY_MASK K)\<rparr>)"
  by (simp add: case_p_def)

text \<open>
  C5. The claim: \<open>--flow none\<close> (as \<open>n\<close>, \<open>x\<close>, \<open>xonxoff\<close>, \<open>h\<close>, \<open>rtscts\<close>) parses without
  error, and a parameter error is returned only for values outside the supported set.
  The code tests \<open>strcmp(optarg, "none") == 0\<close> where the parity case beside it tests
  \<open>!= 0\<close>: the value \<open>none\<close>, which the usage text offers, is the one value that is
  rejected, and a value outside the set is accepted as no flow control.
\<close>

theorem flow_none_rejected:
  "monitor_options K [(Opt_f, ''none'')] g = Inl TY_ERROR_PARAM
   \<and> monitor_options K [(Opt_f, ''bogus'')] g =
       Inr (g\<lparr>device_flags := device_flags g AND NOT (TYD_SERIAL_FLOW_MASK K)\<rparr>)"
  by (simp add: case_f_def)

lemma and_not_mask: "(x AND NOT m) AND m = (0 :: 32 word)"
  by (simp add: bit_eq_iff bit_simps)

lemma case_f_digit:
  assumes "optarg \<in> {''5'', ''6'', ''7'', ''8''}"
  shows "case_f K optarg g1 =
     Inr (g1\<lparr>device_flags := device_flags g1 AND NOT (TYD_SERIAL_FLOW_MASK K)\<rparr>)"
  using assms by (auto simp: case_f_def)

lemma databits_digit:
  assumes "optarg \<in> {''5'', ''6'', ''7'', ''8''}"
  shows "\<exists>g1. databits K optarg g = Inr g1"
  using assms by (auto simp: databits_def Let_def)

text \<open>
  C6. For each of the arguments 5, 6, 7 and 8 of \<open>--databits\<close>, the handling of \<open>-d\<close>
  runs on into the handling of \<open>-f\<close> with the same argument: its result is the result of
  the flow case on the variables the character-size statements leave, it is not an error,
  and the flow-control bits of the device flags are clear in it.
\<close>

theorem databits_falls_through:
  assumes "optarg \<in> {''5'', ''6'', ''7'', ''8''}"
  shows "\<exists>g1 g2. databits K optarg g = Inr g1
           \<and> monitor_option K Opt_d optarg g = monitor_option K Opt_f optarg g1
           \<and> monitor_option K Opt_d optarg g = Inr g2
           \<and> device_flags g2 AND TYD_SERIAL_FLOW_MASK K = 0"
proof -
  from databits_digit [OF assms] obtain g1 where g1: "databits K optarg g = Inr g1"
    by blast
  have d: "monitor_option K Opt_d optarg g = monitor_option K Opt_f optarg g1"
    by (simp add: case_d_def g1)
  have f: "monitor_option K Opt_f optarg g1 =
      Inr (g1\<lparr>device_flags := device_flags g1 AND NOT (TYD_SERIAL_FLOW_MASK K)\<rparr>)"
    using case_f_digit [OF assms] by simp
  show ?thesis
    using g1 d f and_not_mask by auto
qed

text \<open>
  With \<open>-f x\<close> given first, a later \<open>-d 7\<close> sets the character size and takes the XON/XOFF
  flag away again.
\<close>

theorem databits_falls_through_witness:
  "''7'' \<in> {''5'', ''6'', ''7'', ''8''}
   \<and> monitor_options example_consts [(Opt_f, ''x'')] initial_globals =
       Inr (initial_globals\<lparr>device_flags := 32\<rparr>)
   \<and> (\<exists>g1 g2. databits example_consts ''7'' (initial_globals\<lparr>device_flags := 32\<rparr>) = Inr g1
         \<and> monitor_option example_consts Opt_d ''7'' (initial_globals\<lparr>device_flags := 32\<rparr>) =
             monitor_option example_consts Opt_f ''7'' g1
         \<and> monitor_option example_consts Opt_d ''7'' (initial_globals\<lparr>device_flags := 32\<rparr>) =
             Inr g2
         \<and> device_flags g2 AND TYD_SERIAL_FLOW_MASK example_consts = 0)
   \<and> monitor_options example_consts [(Opt_f, ''x''), (Opt_d, ''7'')] initial_globals =
       Inr (initial_globals\<lparr>device_flags := 1\<rparr>)"
  using databits_falls_through [of "''7''" example_consts "initial_globals\<lparr>device_flags := 32\<rparr>"]
  by (simp add: case_f_def case_d_def databits_def example_consts_def initial_globals_def)

section \<open>Properties of the session loop\<close>

lemma in_set_not_Nil: "t \<in> set xs \<Longrightarrow> xs \<noteq> []"
  by auto

text \<open>A poll that times out: \<open>case 0\<close> returns 0, whatever armed the timeout.\<close>

lemma while_true_Quiet:
  assumes "dset s \<noteq> []" and "0 \<le> timeout s"
  shows "while_true g s ((Quiet, a) # es) = ([], Returned (Inr 0))"
  using assms by (simp add: ty_poll_def switch_r_def)

text \<open>One iteration on a source that is in the set.\<close>

lemma while_true_Ready:
  assumes "tag \<in> set (dset s)"
  shows "while_true g s ((Ready tag, a) # es) =
     (case switch_r g a tag s of
        (acts, Return v) \<Rightarrow> (acts, Returned v)
      | (acts, Break s1) \<Rightarrow> (acts @ fst (while_true g s1 es), snd (while_true g s1 es))
      | (acts, Goto_restart) \<Rightarrow>
          (case restart g a of
             (acts0, Inl e) \<Rightarrow> (acts @ acts0, Returned (Inl e))
           | (acts0, Inr s1) \<Rightarrow>
               (acts @ acts0 @ fst (while_true g s1 es), snd (while_true g s1 es))))"
  using assms in_set_not_Nil [OF assms]
  by (simp add: ty_poll_def split: prod.splits control.splits sum.splits)

text \<open>A device read that succeeds, with a write that succeeds, changes no variable.\<close>

lemma serial_read_keeps_state:
  assumes "2 \<in> set (dset s)" and "serial_read_r a = Inr n" and "write_r a = Some k"
  shows "while_true g s ((Ready 2, a) # es) =
     ([Call_serial_read BUFFER_SIZE, Call_write n] @ fst (while_true g s es),
      snd (while_true g s es))"
  unfolding while_true_Ready [OF assms(1)]
  using assms
  by (auto simp: switch_r_def case_2_def)

lemma device_reads_keep_state:
  assumes "2 \<in> set (dset s)"
  shows "while_true g s (device_reads ns @ es) =
     (device_read_calls ns @ fst (while_true g s es), snd (while_true g s es))"
proof (induction ns)
  case Nil
  show ?case by (simp add: device_reads_def device_read_calls_def)
next
  case (Cons n ns)
  have step: "while_true g s ((Ready 2, all_fine\<lparr>serial_read_r := Inr n\<rparr>) # device_reads ns @ es) =
      ([Call_serial_read BUFFER_SIZE, Call_write n] @ fst (while_true g s (device_reads ns @ es)),
       snd (while_true g s (device_reads ns @ es)))"
    by (rule serial_read_keeps_state [OF assms, where k = 1]) (simp_all add: all_fine_def)
  have unfold: "device_reads (n # ns) @ es =
      (Ready 2, all_fine\<lparr>serial_read_r := Inr n\<rparr>) # device_reads ns @ es"
    by (simp add: device_reads_def)
  have calls: "device_read_calls (n # ns) =
      [Call_serial_read BUFFER_SIZE, Call_write n] @ device_read_calls ns"
    by (simp add: device_read_calls_def)
  show ?case
    unfolding unfold step calls Cons.IH by simp
qed

text \<open>
  \<open>case 1\<close> when the refresh finds the board without its serial capability: \<open>return 0\<close>
  without reconnect; with reconnect the call \<open>tyb_board_wait_for(board,
  TYB_BOARD_CAPABILITY_SERIAL, false, -1)\<close> and, when it succeeds, the way through
  \<open>restart\<close>.
\<close>

lemma serial_lost_on_refresh:
  assumes "1 \<in> set (dset s)" and "monitor_refresh_r a = Inr r0"
    and "\<not> has_capability_serial a"
  shows "(\<not> reconnect g \<longrightarrow>
            while_true g s ((Ready 1, a) # es) = ([Call_monitor_refresh], Returned (Inr 0)))
       \<and> (reconnect g \<and> wait_for_r a = Inr r1 \<and> serial_set_attributes_r a = Inr r2 \<longrightarrow>
            while_true g s ((Ready 1, a) # es) =
              ([Call_monitor_refresh, Call_printf ''Waiting for device...'',
                Call_board_wait_for TYB_BOARD_CAPABILITY_SERIAL False (- 1),
                Call_serial_set_attributes (device_rate g) (device_flags g),
                Call_printf ''Connection ready''] @
                 fst (while_true g \<lparr>dset = fill_descriptor_set g, timeout = - 1\<rparr> es),
               snd (while_true g \<lparr>dset = fill_descriptor_set g, timeout = - 1\<rparr> es)))"
  unfolding while_true_Ready [OF assms(1)]
  using assms
  by (auto simp: switch_r_def case_1_def restart_def)









text \<open>
  C3. The claim: a serial read that fails with an I/O error ends the session with that
  error, without a further read, when reconnect is off; with reconnect the loop removes
  tags 2 and 3, sets the timeout to the backoff interval, and does not terminate. The
  last part fails when nothing is left in the set: after end of input has taken tags 1
  and 3 out (lines 326-327), the removal of tag 2 empties the set and the test at line
  242 returns 0. As amended: without reconnect the loop returns \<open>TY_ERROR_IO\<close> at once,
  the failed read being its only call; with reconnect it removes tags 2 and 3, sets the
  timeout to \<open>ERROR_IO_TIMEOUT\<close> and does not return the error: it is back in \<open>ty_poll\<close>
  when a descriptor is left in the set, and returns 0 when the set has become empty.
\<close>

theorem serial_read_io_error:
  assumes "2 \<in> set (dset s)" and "serial_read_r a = Inl TY_ERROR_IO"
  shows "(\<not> reconnect g \<longrightarrow>
            while_true g s ((Ready 2, a) # es) =
              ([Call_serial_read BUFFER_SIZE], Returned (Inl TY_ERROR_IO)))
       \<and> (reconnect g \<longrightarrow>
            while_true g s ((Ready 2, a) # es) =
              (Call_serial_read BUFFER_SIZE #
                 fst (while_true g
                   (s\<lparr>timeout := ERROR_IO_TIMEOUT,
                      dset := ty_descriptor_set_remove (ty_descriptor_set_remove (dset s) 2) 3\<rparr>)
                   es),
               snd (while_true g
                   (s\<lparr>timeout := ERROR_IO_TIMEOUT,
                      dset := ty_descriptor_set_remove (ty_descriptor_set_remove (dset s) 2) 3\<rparr>)
                   es)))
       \<and> (reconnect g
            \<and> ty_descriptor_set_remove (ty_descriptor_set_remove (dset s) 2) 3 \<noteq> [] \<longrightarrow>
            while_true g s [(Ready 2, a)] =
              ([Call_serial_read BUFFER_SIZE],
               In_poll (s\<lparr>timeout := ERROR_IO_TIMEOUT,
                      dset := ty_descriptor_set_remove (ty_descriptor_set_remove (dset s) 2) 3\<rparr>)))
       \<and> (reconnect g
            \<and> ty_descriptor_set_remove (ty_descriptor_set_remove (dset s) 2) 3 = [] \<longrightarrow>
            while_true g s ((Ready 2, a) # es) =
              ([Call_serial_read BUFFER_SIZE], Returned (Inr 0)))"
proof -
  let ?s1 = "s\<lparr>timeout := ERROR_IO_TIMEOUT,
      dset := ty_descriptor_set_remove (ty_descriptor_set_remove (dset s) 2) 3\<rparr>"
  have stop: "while_true g s ((Ready 2, a) # es) =
      ([Call_serial_read BUFFER_SIZE], Returned (Inl TY_ERROR_IO))"
    if "\<not> reconnect g"
    unfolding while_true_Ready [OF assms(1)]
    using assms that by (simp add: switch_r_def case_2_def)
  have go: "while_true g s ((Ready 2, a) # es') =
      (Call_serial_read BUFFER_SIZE # fst (while_true g ?s1 es'), snd (while_true g ?s1 es'))"
    if "reconnect g" for es'
    unfolding while_true_Ready [OF assms(1)]
    using assms that by (simp add: switch_r_def case_2_def)
  have left: "while_true g s [(Ready 2, a)] = ([Call_serial_read BUFFER_SIZE], In_poll ?s1)"
    if "reconnect g" and "dset ?s1 \<noteq> []"
    using go [OF that(1), of "[]"] that(2) by simp
  have empty: "while_true g s ((Ready 2, a) # es) =
      ([Call_serial_read BUFFER_SIZE], Returned (Inr 0))"
    if "reconnect g" and "dset ?s1 = []"
    using go [OF that(1), of es] that(2) by (cases es) auto
  show ?thesis
    using stop go [of es] left empty by simp
qed

theorem serial_read_io_error_witness:
  "2 \<in> set (dset entry_state)
   \<and> serial_read_r (all_fine\<lparr>serial_read_r := Inl TY_ERROR_IO\<rparr>) = Inl TY_ERROR_IO
   \<and> \<not> reconnect initial_globals
   \<and> while_true initial_globals entry_state
        [(Ready 2, all_fine\<lparr>serial_read_r := Inl TY_ERROR_IO\<rparr>), (Ready 2, all_fine)] =
       ([Call_serial_read BUFFER_SIZE], Returned (Inl TY_ERROR_IO))
   \<and> reconnect (initial_globals\<lparr>reconnect := True\<rparr>)
   \<and> ty_descriptor_set_remove (ty_descriptor_set_remove (dset entry_state) 2) 3 = [1]
   \<and> while_true (initial_globals\<lparr>reconnect := True\<rparr>) entry_state
        [(Ready 2, all_fine\<lparr>serial_read_r := Inl TY_ERROR_IO\<rparr>)] =
       ([Call_serial_read BUFFER_SIZE], In_poll \<lparr>dset = [1], timeout = 5000\<rparr>)
   \<and> 2 \<in> set (dset \<lparr>dset = [2], timeout = 200\<rparr>)
   \<and> ty_descriptor_set_remove
        (ty_descriptor_set_remove (dset \<lparr>dset = [2], timeout = 200\<rparr>) 2) 3 = []
   \<and> while_true (initial_globals\<lparr>reconnect := True\<rparr>) \<lparr>dset = [2], timeout = 200\<rparr>
        [(Ready 2, all_fine\<lparr>serial_read_r := Inl TY_ERROR_IO\<rparr>), (Ready 2, all_fine)] =
       ([Call_serial_read BUFFER_SIZE], Returned (Inr 0))"
  using serial_read_io_error [where s = entry_state
      and a = "all_fine\<lparr>serial_read_r := Inl TY_ERROR_IO\<rparr>" and g = initial_globals
      and es = "[(Ready 2, all_fine)]"]
    serial_read_io_error [where s = entry_state
      and a = "all_fine\<lparr>serial_read_r := Inl TY_ERROR_IO\<rparr>"
      and g = "initial_globals\<lparr>reconnect := True\<rparr>" and es = "[]"]
    serial_read_io_error [where s = "\<lparr>dset = [2], timeout = 200\<rparr>"
      and a = "all_fine\<lparr>serial_read_r := Inl TY_ERROR_IO\<rparr>"
      and g = "initial_globals\<lparr>reconnect := True\<rparr>" and es = "[(Ready 2, all_fine)]"]
  by (simp add: entry_state_def all_fine_def initial_globals_def ty_descriptor_set_remove_def
      ERROR_IO_TIMEOUT_def)

text \<open>
  Reconnect is set, the input ends, then the serial read fails with an I/O error: \<open>loop\<close>
  returns 0.
\<close>

theorem io_error_after_eof_counterexample:
  "loop (initial_globals\<lparr>reconnect := True\<rparr>) all_fine
     [(Ready 3, all_fine\<lparr>read_r := Some 0\<rparr>),
      (Ready 2, all_fine\<lparr>serial_read_r := Inl TY_ERROR_IO\<rparr>)] =
   ([Call_serial_set_attributes 115200 0, Call_printf ''Connection ready'',
     Call_read BUFFER_SIZE, Call_serial_read BUFFER_SIZE],
    Returned (Inr 0))"
  by (simp add: loop_def restart_def all_fine_def initial_globals_def fill_descriptor_set_def
      DIRECTION_INPUT_def DIRECTION_OUTPUT_def ty_poll_def switch_r_def case_2_def case_3_def
      ty_descriptor_set_remove_def ERROR_IO_TIMEOUT_def)

text \<open>
  C4. The claim: a poll that times out after the reconnect backoff was armed leads back
  to the top of the loop through \<open>goto restart\<close>, and only the EOF grace ends the session.
  \<open>case 0\<close> is a plain \<open>return 0\<close>; the only \<open>goto restart\<close> is in \<open>case 1\<close>. As
  amended: whenever the poll returns Timeout the loop returns 0 and the session ends,
  whichever of the two timeouts was armed.
\<close>

theorem poll_timeout_returns:
  assumes "dset s \<noteq> []" and "0 \<le> timeout s"
  shows "while_true g s ((Quiet, a) # es) = ([], Returned (Inr 0))"
  using assms by (rule while_true_Quiet)

theorem poll_timeout_returns_witness:
  "dset \<lparr>dset = [1], timeout = ERROR_IO_TIMEOUT\<rparr> \<noteq> []
   \<and> 0 \<le> timeout \<lparr>dset = [1], timeout = ERROR_IO_TIMEOUT\<rparr>
   \<and> while_true (initial_globals\<lparr>reconnect := True\<rparr>) \<lparr>dset = [1], timeout = ERROR_IO_TIMEOUT\<rparr>
        [(Quiet, all_fine), (Ready 1, all_fine)] = ([], Returned (Inr 0))"
  using poll_timeout_returns [where s = "\<lparr>dset = [1], timeout = ERROR_IO_TIMEOUT\<rparr>"
      and g = "initial_globals\<lparr>reconnect := True\<rparr>" and a = all_fine
      and es = "[(Ready 1, all_fine)]"]
  by (simp add: ERROR_IO_TIMEOUT_def)

text \<open>
  Under the reconnect policy a serial read fails with an I/O error and the backoff
  elapses: \<open>loop\<close> returns 0. The serial attributes were applied once, on entry; there is
  no second pass through \<open>restart\<close>.
\<close>

theorem backoff_elapsed_counterexample:
  "loop (initial_globals\<lparr>reconnect := True\<rparr>) all_fine
     [(Ready 2, all_fine\<lparr>serial_read_r := Inl TY_ERROR_IO\<rparr>), (Quiet, all_fine)] =
   ([Call_serial_set_attributes 115200 0, Call_printf ''Connection ready'',
     Call_serial_read BUFFER_SIZE],
    Returned (Inr 0))"
  by (simp add: loop_def restart_def all_fine_def initial_globals_def fill_descriptor_set_def
      DIRECTION_INPUT_def DIRECTION_OUTPUT_def ty_poll_def switch_r_def case_2_def
      ty_descriptor_set_remove_def ERROR_IO_TIMEOUT_def)

text \<open>
  What \<open>case 2\<close>, \<open>case 3\<close> and the cases without statements do: none of the calls of
  the refresh path, no \<open>goto restart\<close>, and no descriptor added to the set.
\<close>

lemma case_2_off_refresh_path:
  assumes "case_2 g a s = (acts, c)"
  shows "filter on_refresh_path acts = [] \<and> c \<noteq> Goto_restart
       \<and> (case c of Break s1 \<Rightarrow> set (dset s1) \<subseteq> set (dset s) | _ \<Rightarrow> True)"
  using assms
  by (auto simp: case_2_def ty_descriptor_set_remove_def split: sum.splits option.splits if_splits)

lemma case_3_off_refresh_path:
  assumes "case_3 g a s = (acts, c)"
  shows "filter on_refresh_path acts = [] \<and> c \<noteq> Goto_restart
       \<and> (case c of Break s1 \<Rightarrow> set (dset s1) \<subseteq> set (dset s) | _ \<Rightarrow> True)"
  using assms
  by (auto simp: case_3_def ty_descriptor_set_remove_def split: sum.splits option.splits if_splits)

lemma switch_r_off_refresh_path:
  assumes "switch_r g a r s = (acts, c)" and "r \<noteq> 1"
  shows "filter on_refresh_path acts = [] \<and> c \<noteq> Goto_restart
       \<and> (case c of Break s1 \<Rightarrow> set (dset s1) \<subseteq> set (dset s) | _ \<Rightarrow> True)"
  using assms case_2_off_refresh_path [of g a s acts c] case_3_off_refresh_path [of g a s acts c]
  by (auto simp: switch_r_def split: if_splits)

text \<open>
  Once tag 1 is out of the set it stays out, and the rest of the run makes no call of the
  refresh path, whatever wake-ups and answers follow.
\<close>

lemma no_refresh_without_tag_1:
  assumes "1 \<notin> set (dset s)"
  shows "filter on_refresh_path (fst (while_true g s es)) = []"
  using assms
proof (induction es arbitrary: s)
  case Nil
  then show ?case by simp
next
  case (Cons e es)
  obtain w a where e: "e = (w, a)" by (cases e)
  show ?case
  proof (cases "dset s = []")
    case True
    then show ?thesis by (simp add: e)
  next
    case ne: False
    show ?thesis
    proof (cases "ty_poll (dset s) (timeout s) w")
      case None
      then show ?thesis using ne Cons by (simp add: e)
    next
      case (Some res)
      show ?thesis
      proof (cases res)
        case (Inl err)
        then show ?thesis using ne Some by (simp add: e)
      next
        case (Inr r)
        have r1: "r \<noteq> 1"
          using Some Inr Cons.prems
          by (auto simp: ty_poll_def split: wakeup.splits if_splits)
        obtain acts c where sw: "switch_r g a r s = (acts, c)"
          by (cases "switch_r g a r s")
        note q = switch_r_off_refresh_path [OF sw r1]
        show ?thesis
        proof (cases c)
          case (Break s1)
          with q have "1 \<notin> set (dset s1)" using Cons.prems by auto
          from Cons.IH [OF this] show ?thesis
            using ne Some Inr sw Break q
            by (auto simp: e split: prod.splits)
        next
          case Goto_restart
          with q show ?thesis by simp
        next
          case (Return v)
          then show ?thesis using ne Some Inr sw q by (simp add: e)
        qed
      qed
    qed
  qed
qed

text \<open>
  C10. After a zero-byte read of the input with a non-negative EOF timeout, tag 1 is no
  longer in the wait set, and from that read on the loop makes no call of
  \<open>tyb_monitor_refresh\<close>, of \<open>tyb_board_wait_for\<close> or of
  \<open>tyb_board_serial_set_attributes\<close>, whatever happens afterwards and whether or not
  reconnect is set.
\<close>

theorem no_refresh_after_eof:
  assumes "3 \<in> set (dset s)" and "read_r a = Some 0" and "0 \<le> timeout_eof g"
  shows "1 \<notin> set (ty_descriptor_set_remove (ty_descriptor_set_remove (dset s) 1) 3)
       \<and> filter on_refresh_path (fst (while_true g s ((Ready 3, a) # es))) = []"
proof -
  let ?s1 = "s\<lparr>timeout := timeout_eof g,
      dset := ty_descriptor_set_remove (ty_descriptor_set_remove (dset s) 1) 3\<rparr>"
  have gone: "1 \<notin> set (dset ?s1)"
    by (simp add: ty_descriptor_set_remove_def)
  have run: "fst (while_true g s ((Ready 3, a) # es)) =
      Call_read BUFFER_SIZE # fst (while_true g ?s1 es)"
    unfolding while_true_Ready [OF assms(1)]
    using assms by (simp add: switch_r_def case_3_def)
  show ?thesis
    using gone no_refresh_without_tag_1 [OF gone, of g es] run by simp
qed

text \<open>
  Reconnect is set, the input ends, then the monitor signals and the board has lost its
  serial capability: the loop stays in \<open>ty_poll\<close> on the serial descriptor alone.
\<close>

theorem no_refresh_after_eof_witness:
  "3 \<in> set (dset entry_state) \<and> read_r (all_fine\<lparr>read_r := Some 0\<rparr>) = Some 0
   \<and> 0 \<le> timeout_eof (initial_globals\<lparr>reconnect := True\<rparr>)
   \<and> 1 \<notin> set (ty_descriptor_set_remove (ty_descriptor_set_remove (dset entry_state) 1) 3)
   \<and> filter on_refresh_path
        (fst (while_true (initial_globals\<lparr>reconnect := True\<rparr>) entry_state
           [(Ready 3, all_fine\<lparr>read_r := Some 0\<rparr>),
            (Ready 1, all_fine\<lparr>has_capability_serial := False\<rparr>)])) = []
   \<and> while_true (initial_globals\<lparr>reconnect := True\<rparr>) entry_state
        [(Ready 3, all_fine\<lparr>read_r := Some 0\<rparr>),
         (Ready 1, all_fine\<lparr>has_capability_serial := False\<rparr>)] =
       ([Call_read BUFFER_SIZE], In_poll \<lparr>dset = [2], timeout = 200\<rparr>)"
  using no_refresh_after_eof [where s = entry_state and a = "all_fine\<lparr>read_r := Some 0\<rparr>"
      and g = "initial_globals\<lparr>reconnect := True\<rparr>"
      and es = "[(Ready 1, all_fine\<lparr>has_capability_serial := False\<rparr>)]"]
  by (simp add: entry_state_def all_fine_def initial_globals_def ty_descriptor_set_remove_def
      ty_poll_def switch_r_def case_3_def)

section \<open>Properties of the board collection\<close>

lemma stop_stopped: "\<not> m_started m \<Longrightarrow> stop m = m"
  by (simp add: stop_def)

lemma stop_drains:
  "m_started m \<Longrightarrow> m_boards (stop m) = [] \<and> boardCount (stop m) = 0 \<and> \<not> m_started (stop m)"
  by (simp add: stop_def boardCount_def Let_def)

lemma stop_idempotent: "stop (stop m) = stop m"
  by (cases "m_started m") (simp_all add: stop_stopped stop_drains)

lemma start_started: "m_started m \<Longrightarrow> start b m = (True, m)"
  by (simp add: start_def)

lemma start_success_started: "fst (start b m) \<Longrightarrow> m_started (snd (start b m))"
  by (auto simp: start_def Let_def split: sum.splits if_splits)

lemma start_idempotent:
  "fst (start b m) \<Longrightarrow> start b1 (snd (start b m)) = (True, snd (start b m))"
  using start_success_started [of b m] by (simp add: start_started)

lemma stop_announcement:
  "m_started m \<Longrightarrow> m_boards m \<noteq> [] \<Longrightarrow>
   emitted_log (stop m) = emitted_log m @
     [BeginRemoveRows 0 (length (m_boards m)), EndRemoveRows, Call_ty_monitor_stop]"
  by (simp add: stop_def Let_def)

text \<open>
  C7. The claim: \<open>stop()\<close> empties the collection, with a removal notification for the
  drained rows, and \<open>start()\<close> and \<open>stop()\<close> are idempotent. The collection is emptied and
  both are idempotent (\<open>stop_drains\<close>, \<open>stop_stopped\<close>, \<open>stop_idempotent\<close>,
  \<open>start_started\<close>, \<open>start_idempotent\<close>). The notification is not the one for the
  drained rows: \<open>last\<close> is \<open>boards_.size()\<close>, one past the last row. A started monitor
  with the single board 5 announces the removal of rows 0 and 1.
\<close>

theorem stop_one_board:
  "start backend_fine new_Monitor = (True, snd (start backend_fine new_Monitor))
   \<and> m_boards (handleAddedEvent (snd (start backend_fine new_Monitor)) 5) = [5]
   \<and> m_boards (stop (handleAddedEvent (snd (start backend_fine new_Monitor)) 5)) = []
   \<and> emitted_log (stop (handleAddedEvent (snd (start backend_fine new_Monitor)) 5)) =
       emitted_log (handleAddedEvent (snd (start backend_fine new_Monitor)) 5) @
         [BeginRemoveRows 0 1, EndRemoveRows, Call_ty_monitor_stop]
   \<and> rows_announced 0 1 = [0, 1]"
  by (simp add: start_def start_subscribe_def backend_fine_def new_Monitor_def
      handleAddedEvent_def stop_def rows_announced_def Let_def)

text \<open>What \<open>find_if\<close> returns: the first position of the board, or \<open>end()\<close>.\<close>

lemma takeWhile_found:
  "b \<in> set xs \<Longrightarrow>
   length (takeWhile (\<lambda>p. p \<noteq> b) xs) < length xs
   \<and> xs ! length (takeWhile (\<lambda>p. p \<noteq> b) xs) = b"
  by (induction xs) auto

lemma takeWhile_absent:
  "b \<notin> set xs \<Longrightarrow> length (takeWhile (\<lambda>p. p \<noteq> b) xs) = length xs"
  by (induction xs) auto

lemma findBoardIterator_le: "findBoardIterator m b \<le> length (m_boards m)"
  by (simp add: findBoardIterator_def length_takeWhile_le)

lemma findBoardIterator_found:
  "b \<in> set (m_boards m) \<Longrightarrow>
   findBoardIterator m b < length (m_boards m) \<and> m_boards m ! findBoardIterator m b = b"
  unfolding findBoardIterator_def by (rule takeWhile_found)

lemma findBoardIterator_end:
  "b \<notin> set (m_boards m) \<Longrightarrow> findBoardIterator m b = length (m_boards m)"
  unfolding findBoardIterator_def by (rule takeWhile_absent)

text \<open>No event makes \<open>removeBoardItem\<close> erase at \<open>end()\<close>.\<close>

lemma handleEvent_total: "\<exists>m1. handleEvent m b ev = Some m1"
  using findBoardIterator_le [of m b]
  by (cases ev) (auto simp: handleChangedEvent_def refreshBoard_def removeBoardItem_def)

lemma handleAddedEvent_boards: "m_boards (handleAddedEvent m b) = m_boards m @ [b]"
  by (simp add: handleAddedEvent_def)

lemma handleEvent_dropped_found:
  assumes "b \<in> set (m_boards m)"
  shows "\<exists>m1. handleEvent m b TY_MONITOR_EVENT_DROPPED = Some m1
       \<and> m_boards m1 = take (findBoardIterator m b) (m_boards m) @
                         drop (Suc (findBoardIterator m b)) (m_boards m)"
  using findBoardIterator_found [OF assms]
  by (simp add: handleChangedEvent_def refreshBoard_def removeBoardItem_def)

lemma handleEvent_keeps:
  assumes "ev \<noteq> TY_MONITOR_EVENT_ADDED"
    and "ev \<noteq> TY_MONITOR_EVENT_DROPPED \<or> b \<notin> set (m_boards m)"
  shows "\<exists>m1. handleEvent m b ev = Some m1 \<and> m_boards m1 = m_boards m"
  using assms findBoardIterator_end [of b m]
  by (cases ev) (auto simp: handleChangedEvent_def refreshBoard_def refreshBoardItem_def)

lemma nth_erase:
  assumes "k < length xs" and "i < length xs"
  shows "(i < k \<longrightarrow> (take k xs @ drop (Suc k) xs) ! i = xs ! i)
       \<and> (k < i \<longrightarrow> (take k xs @ drop (Suc k) xs) ! (i - 1) = xs ! i)"
  using assms by (auto simp: nth_append min_def)

lemma takeWhile_before:
  "b \<notin> set (take (length (takeWhile (\<lambda>p. p \<noteq> b) xs)) xs)"
  by (induction xs) auto

lemma findBoardIterator_first:
  "b \<notin> set (take (findBoardIterator m b) (m_boards m))"
  unfolding findBoardIterator_def by (rule takeWhile_before)

text \<open>
  C8. The claim: a new board goes to the end of the collection, and the position of a
  board never changes after its insertion except by that board's own removal. The second
  part fails: \<open>boards_.erase(it)\<close> moves every later board one position down. As amended,
  for one event on any collection: an added event appends the new board and leaves every
  board where it was; a dropped event for a board of the collection removes it at its
  first position \<open>k\<close>, leaves the boards before \<open>k\<close> where they were and moves each board
  after \<open>k\<close> one position down; every other event leaves the collection as it is. Every
  event is handled (\<open>handleEvent_total\<close>), so this holds along every sequence of events.
\<close>

theorem positions_after_event:
  "\<exists>m1. handleEvent m b ev = Some m1
     \<and> (ev = TY_MONITOR_EVENT_ADDED \<longrightarrow>
          m_boards m1 = m_boards m @ [b]
          \<and> m_boards m1 ! length (m_boards m) = b
          \<and> (\<forall>i < length (m_boards m). m_boards m1 ! i = m_boards m ! i))
     \<and> (ev = TY_MONITOR_EVENT_DROPPED \<and> b \<in> set (m_boards m) \<longrightarrow>
          findBoardIterator m b < length (m_boards m)
          \<and> m_boards m ! findBoardIterator m b = b
          \<and> b \<notin> set (take (findBoardIterator m b) (m_boards m))
          \<and> m_boards m1 = take (findBoardIterator m b) (m_boards m) @
                            drop (Suc (findBoardIterator m b)) (m_boards m)
          \<and> (\<forall>i < length (m_boards m).
                (i < findBoardIterator m b \<longrightarrow> m_boards m1 ! i = m_boards m ! i)
                \<and> (findBoardIterator m b < i \<longrightarrow> m_boards m1 ! (i - 1) = m_boards m ! i)))
     \<and> (ev \<noteq> TY_MONITOR_EVENT_ADDED
          \<and> (ev \<noteq> TY_MONITOR_EVENT_DROPPED \<or> b \<notin> set (m_boards m)) \<longrightarrow>
          m_boards m1 = m_boards m)"
proof (cases "ev = TY_MONITOR_EVENT_ADDED")
  case True
  then show ?thesis
    by (simp add: handleAddedEvent_boards nth_append)
next
  case notadd: False
  show ?thesis
  proof (cases "ev = TY_MONITOR_EVENT_DROPPED \<and> b \<in> set (m_boards m)")
    case True
    then obtain m1 where m1: "handleEvent m b ev = Some m1"
      and bs: "m_boards m1 = take (findBoardIterator m b) (m_boards m) @
                         drop (Suc (findBoardIterator m b)) (m_boards m)"
      using handleEvent_dropped_found [of b m] by auto
    have k: "findBoardIterator m b < length (m_boards m)"
      and at: "m_boards m ! findBoardIterator m b = b"
      using True findBoardIterator_found by simp_all
    have moved: "\<forall>i < length (m_boards m).
        (i < findBoardIterator m b \<longrightarrow> m_boards m1 ! i = m_boards m ! i)
        \<and> (findBoardIterator m b < i \<longrightarrow> m_boards m1 ! (i - 1) = m_boards m ! i)"
      unfolding bs using nth_erase [OF k] by blast
    show ?thesis
      using m1 notadd True k at moved findBoardIterator_first [of b m] bs by simp
  next
    case False
    then show ?thesis
      using notadd handleEvent_keeps [of ev b m] by auto
  qed
qed

theorem positions_after_event_witness:
  "8 \<in> set (m_boards (new_Monitor\<lparr>m_boards := [7, 8, 9]\<rparr>))
   \<and> (\<exists>m1. handleEvent (new_Monitor\<lparr>m_boards := [7, 8, 9]\<rparr>) 8 TY_MONITOR_EVENT_DROPPED = Some m1
         \<and> findBoardIterator (new_Monitor\<lparr>m_boards := [7, 8, 9]\<rparr>) 8 = 1
         \<and> m_boards m1 = [7, 9])
   \<and> (\<exists>m1. handleEvent new_Monitor 4 TY_MONITOR_EVENT_ADDED = Some m1 \<and> m_boards m1 = [4])
   \<and> (\<exists>m1. handleEvent (new_Monitor\<lparr>m_boards := [7, 8, 9]\<rparr>) 8 TY_MONITOR_EVENT_CHANGED = Some m1
         \<and> m_boards m1 = [7, 8, 9])"
  using positions_after_event [where m = "new_Monitor\<lparr>m_boards := [7, 8, 9]\<rparr>"
      and b = 8 and ev = TY_MONITOR_EVENT_DROPPED]
    positions_after_event [where m = new_Monitor and b = 4 and ev = TY_MONITOR_EVENT_ADDED]
    positions_after_event [where m = "new_Monitor\<lparr>m_boards := [7, 8, 9]\<rparr>"
      and b = 8 and ev = TY_MONITOR_EVENT_CHANGED]
  by (auto simp: findBoardIterator_def new_Monitor_def)

text \<open>
  Boards 1 and 2 are added, then board 1 is dropped: board 2, still in the collection,
  was at position 1 and is at position 0.
\<close>

theorem position_changes_counterexample:
  "position 2 (handleEvents new_Monitor
      [(1, TY_MONITOR_EVENT_ADDED), (2, TY_MONITOR_EVENT_ADDED)]) = Some 1
   \<and> position 2 (handleEvents new_Monitor
      [(1, TY_MONITOR_EVENT_ADDED), (2, TY_MONITOR_EVENT_ADDED),
       (1, TY_MONITOR_EVENT_DROPPED)]) = Some 0"
  by (simp add: position_def new_Monitor_def handleAddedEvent_def handleChangedEvent_def
      refreshBoard_def removeBoardItem_def findBoardIterator_def)

lemma unat_boardCount:
  assumes "length (m_boards m) < 2 ^ 32"
  shows "unat (boardCount m) = length (m_boards m)"
  using assms by (simp add: boardCount_def unat_of_nat)

lemma board_in_bounds:
  "board m i = (if unat i < length (m_boards m) then Some (m_boards m ! unat i) else None)"
  by (simp add: board_def)

text \<open>
  C9. \<open>Monitor::board\<close> is total: for an index \<open>i\<close> with \<open>boardCount() \<le> i\<close> it returns
  the null pointer, and for an index below \<open>boardCount()\<close> the board stored at that
  position. \<open>boardCount()\<close> is an \<open>unsigned int\<close>, so the collection is taken to hold
  fewer than \<open>2 ^ 32\<close> boards (\<open>board_in_bounds\<close> needs no bound: no index reads beyond
  the end).
\<close>

theorem board_total:
  assumes "length (m_boards m) < 2 ^ 32"
  shows "(boardCount m \<le> i \<longrightarrow> board m i = None)
       \<and> (i < boardCount m \<longrightarrow> board m i = Some (m_boards m ! unat i))"
  using unat_boardCount [OF assms]
  by (simp add: board_def word_le_nat_alt word_less_nat_alt)

theorem board_total_witness:
  "length (m_boards (new_Monitor\<lparr>m_boards := [7, 8, 9]\<rparr>)) < 2 ^ 32
   \<and> boardCount (new_Monitor\<lparr>m_boards := [7, 8, 9]\<rparr>) \<le> 3
   \<and> board (new_Monitor\<lparr>m_boards := [7, 8, 9]\<rparr>) 3 = None
   \<and> 2 < boardCount (new_Monitor\<lparr>m_boards := [7, 8, 9]\<rparr>)
   \<and> board (new_Monitor\<lparr>m_boards := [7, 8, 9]\<rparr>) 2 = Some 9"
  using board_total [where m = "new_Monitor\<lparr>m_boards := [7, 8, 9]\<rparr>" and i = 3]
    board_total [where m = "new_Monitor\<lparr>m_boards := [7, 8, 9]\<rparr>" and i = 2]
  by (simp add: boardCount_def new_Monitor_def)

end
